theory Spec2Isabelle
  imports Complex_Main "HOL-Library.Signed_Division"
begin

section \<open>Numbers and vectors\<close>

text \<open>
  The program computes in C++ \<^verbatim>\<open>float\<close> and \<^verbatim>\<open>int\<close>. The embedding reads every
  \<^verbatim>\<open>float\<close> as a real number (no rounding, no NaN, no infinities) and every \<^verbatim>\<open>int\<close> as
  an unbounded integer; the remainder operator \<^verbatim>\<open>%\<close> of C++ truncates towards zero and is
  \<open>smod\<close>. A division of a \<^verbatim>\<open>float\<close> by zero, which is NaN or an infinity in the program,
  is \<open>0\<close> in HOL: no theorem below relies on the value of such a quotient.
\<close>

datatype vec2 = Vec2 (v2x: real) (v2y: real)

datatype vec3 = Vec3 (vx: real) (vy: real) (vz: real)

definition vadd :: "vec3 \<Rightarrow> vec3 \<Rightarrow> vec3" where
  "vadd a b = Vec3 (vx a + vx b) (vy a + vy b) (vz a + vz b)"

definition vsub :: "vec3 \<Rightarrow> vec3 \<Rightarrow> vec3" where
  "vsub a b = Vec3 (vx a - vx b) (vy a - vy b) (vz a - vz b)"

definition vscale :: "vec3 \<Rightarrow> real \<Rightarrow> vec3" where
  "vscale a k = Vec3 (vx a * k) (vy a * k) (vz a * k)"

definition vdot :: "vec3 \<Rightarrow> vec3 \<Rightarrow> real" where
  "vdot a b = vx a * vx b + vy a * vy b + vz a * vz b"

definition cross :: "vec3 \<Rightarrow> vec3 \<Rightarrow> vec3" where
  "cross a b = Vec3 (vy a * vz b - vz a * vy b)
                    (vz a * vx b - vx a * vz b)
                    (vx a * vy b - vy a * vx b)"

text \<open>\<^verbatim>\<open>glm::normalize(v)\<close> is \<^verbatim>\<open>v * inversesqrt(dot(v, v))\<close>.\<close>

definition normalize :: "vec3 \<Rightarrow> vec3" where
  "normalize a = vscale a (1 / sqrt (vdot a a))"

text \<open>\<^verbatim>\<open>glm::radians\<close> and \<^verbatim>\<open>glm::clamp(x, lo, hi) = min(max(x, lo), hi)\<close>.\<close>

definition radians :: "real \<Rightarrow> real" where
  "radians d = d * (pi / 180)"

definition clamp :: "real \<Rightarrow> real \<Rightarrow> real \<Rightarrow> real" where
  "clamp x lo hi = min (max x lo) hi"


section \<open>Meshes\<close>

text \<open>
  \<^verbatim>\<open>struct Vtx { glm::vec3 p; glm::vec3 n; glm::vec2 uv; }\<close>. A builder fills a vertex
  vector and an index vector and uploads both; the embedding returns the two vectors
  (the GPU handles of \<^verbatim>\<open>Mesh\<close> are outside the model) and \<open>indexCount\<close> reads the
  field \<^verbatim>\<open>Mesh::indexCount\<close> from them. The loops \<^verbatim>\<open>for (int i = 0; i <= n; ++i)\<close> and
  \<^verbatim>\<open>for (int i = 0; i < n; ++i)\<close> are folds over \<open>[0..n]\<close> and \<open>[0..n - 1]\<close>, each
  \<^verbatim>\<open>push_back\<close> appends.
\<close>

datatype Vtx = Vtx (vtx_p: vec3) (vtx_n: vec3) (vtx_uv: vec2)

definition indexCount :: "'v list \<times> int list \<Rightarrow> int" where
  "indexCount m = int (length (snd m))"

subsection \<open>buildSphere\<close>

definition sphere_vertex :: "int \<Rightarrow> int \<Rightarrow> real \<Rightarrow> int \<Rightarrow> int \<Rightarrow> Vtx" where
  "sphere_vertex stacks slices r i j =
     (let fv = real_of_int i / real_of_int stacks; phi = fv * pi;
          y = cos phi; rr = sin phi;
          fu = real_of_int j / real_of_int slices; th = fu * (2 * pi);
          x = rr * cos th; z = rr * sin th;
          nrm = normalize (Vec3 x y z)
      in Vtx (vscale (Vec3 x y z) r) nrm (Vec2 fu (1 - fv)))"

definition sphere_row :: "int \<Rightarrow> int \<Rightarrow> real \<Rightarrow> int \<Rightarrow> Vtx list \<Rightarrow> Vtx list" where
  "sphere_row stacks slices r i v =
     fold (\<lambda>j v. v @ [sphere_vertex stacks slices r i j]) [0..slices] v"

definition sphere_quad :: "int \<Rightarrow> int \<Rightarrow> int \<Rightarrow> int list \<Rightarrow> int list" where
  "sphere_quad slices i j idx =
     (let r1 = i * (slices + 1); r2 = (i + 1) * (slices + 1)
      in idx @ [r1 + j, r2 + j, r2 + j + 1, r1 + j, r2 + j + 1, r1 + j + 1])"

definition buildSphere :: "int \<Rightarrow> int \<Rightarrow> real \<Rightarrow> Vtx list \<times> int list" where
  "buildSphere stacks slices r =
     (let v = fold (sphere_row stacks slices r) [0..stacks] [];
          idx = fold (\<lambda>i idx. fold (sphere_quad slices i) [0..slices - 1] idx)
                     [0..stacks - 1] []
      in (v, idx))"

subsection \<open>buildRing\<close>

definition ring_step ::
  "int \<Rightarrow> real \<Rightarrow> real \<Rightarrow> int \<Rightarrow> Vtx list \<times> int list \<Rightarrow> Vtx list \<times> int list" where
  "ring_step segments innerR outerR i m =
     (let u = real_of_int i / real_of_int segments; th = u * (2 * pi);
          c = cos th; s = sin th;
          v = fst m @ [Vtx (Vec3 (outerR * c) 0 (outerR * s)) (Vec3 0 1 0) (Vec2 u 1)];
          v = v @ [Vtx (Vec3 (innerR * c) 0 (innerR * s)) (Vec3 0 1 0) (Vec2 u 0)];
          idx = (if i < segments
                 then (let b = i * 2 in snd m @ [b, b + 1, b + 2, b + 1, b + 3, b + 2])
                 else snd m)
      in (v, idx))"

definition buildRing :: "int \<Rightarrow> real \<Rightarrow> real \<Rightarrow> Vtx list \<times> int list" where
  "buildRing segments innerR outerR =
     fold (ring_step segments innerR outerR) [0..segments] ([], [])"

subsection \<open>buildOrbitLine\<close>

definition orbit_step ::
  "int \<Rightarrow> real \<Rightarrow> int \<Rightarrow> vec3 list \<times> int list \<Rightarrow> vec3 list \<times> int list" where
  "orbit_step segments r i m =
     (let u = real_of_int i / real_of_int segments; th = u * (2 * pi)
      in (fst m @ [Vec3 (r * cos th) 0 (r * sin th)],
          snd m @ [i, (i + 1) smod segments]))"

definition buildOrbitLine :: "int \<Rightarrow> real \<Rightarrow> vec3 list \<times> int list" where
  "buildOrbitLine segments r = fold (orbit_step segments r) [0..segments - 1] ([], [])"


section \<open>Program state\<close>

text \<open>
  The globals of the program and the locals of \<^verbatim>\<open>main\<close> that live across frames. Of
  \<^verbatim>\<open>struct Planet\<close> the mesh and the texture handle are left out. The window size, the
  fullscreen bookkeeping and the FPS counters do not reach any modelled value and are left
  out too.
\<close>

datatype CamMode = ORBIT | FREE | FOCUS

record Planet =
  orbitRadius :: real
  orbitSpeed :: real
  spinSpeed :: real
  orbitAngle :: real
  spinAngle :: real

text \<open>\<^verbatim>\<open>Planet x{ mesh, tex, radius, orbitSpeed, spinSpeed }\<close>: both angles start at 0.\<close>

definition mk_planet :: "real \<Rightarrow> real \<Rightarrow> real \<Rightarrow> Planet" where
  "mk_planet r os ss =
     \<lparr>orbitRadius = r, orbitSpeed = os, spinSpeed = ss, orbitAngle = 0, spinAngle = 0\<rparr>"

record bodies =
  sun :: Planet
  mercury :: Planet
  venus :: Planet
  earth :: Planet
  moon :: Planet
  mars :: Planet
  jupiter :: Planet
  saturn :: Planet
  uranus :: Planet
  neptune :: Planet
  europa :: Planet

record state =
  camMode :: CamMode
  showOrbits :: bool
  showStars :: bool
  paused :: bool
  timeScale :: real
  fovDeg :: real
  camYaw :: real
  camPitch :: real
  camDist :: real
  freePos :: vec3
  freeYaw :: real
  freePitch :: real
  rmbDown :: bool
  lastX :: real
  lastY :: real
  focusIndex :: int
  focusDist :: real
  planets :: bodies
  last_time :: real
  prevSpace :: bool

definition init_bodies :: bodies where
  "init_bodies =
     \<lparr>sun = mk_planet 0 0 10, mercury = mk_planet 6 48 6, venus = mk_planet 9 35 (- 2),
      earth = mk_planet 12 30 50, moon = mk_planet 2 80 20, mars = mk_planet 15 24 40,
      jupiter = mk_planet 20 13 80, saturn = mk_planet 26 10 70,
      uranus = mk_planet 32 7 50, neptune = mk_planet 38 5 40,
      europa = mk_planet 3 90 15\<rparr>"

text \<open>The state when the main loop is entered; \<open>t0\<close> is the clock read before it.\<close>

definition init_state :: "real \<Rightarrow> state" where
  "init_state t0 =
     \<lparr>camMode = ORBIT, showOrbits = True, showStars = True, paused = False,
      timeScale = 1, fovDeg = 45,
      camYaw = radians 0, camPitch = radians 15, camDist = 45,
      freePos = Vec3 0 10 60, freeYaw = 0, freePitch = 0,
      rmbDown = False, lastX = 0, lastY = 0,
      focusIndex = 0, focusDist = 12,
      planets = init_bodies, last_time = t0, prevSpace = False\<rparr>"


section \<open>Input callbacks\<close>

datatype button = MOUSE_BUTTON_RIGHT | MOUSE_BUTTON_OTHER

datatype action = PRESS | RELEASE | REPEAT

datatype key =
    KEY_ESCAPE | KEY_F11 | KEY_ENTER
  | KEY_1 | KEY_2 | KEY_3 | KEY_N | KEY_P
  | KEY_H | KEY_B
  | KEY_LEFT_BRACKET | KEY_RIGHT_BRACKET | KEY_MINUS | KEY_EQUAL
  | KEY_Z | KEY_X
  | KEY_SPACE | KEY_A | KEY_D | KEY_Q | KEY_E | KEY_W | KEY_S
  | KEY_OTHER

definition orbitCamPos :: "state \<Rightarrow> vec3" where
  "orbitCamPos s =
     (let cp = cos (camPitch s); sp = sin (camPitch s);
          sy = sin (camYaw s); cy = cos (camYaw s)
      in Vec3 (camDist s * cp * sy) (camDist s * sp) (camDist s * cp * cy))"

definition scroll_cb :: "real \<Rightarrow> state \<Rightarrow> state" where
  "scroll_cb yoff s =
     (if camMode s = FREE then s\<lparr>fovDeg := clamp (fovDeg s - yoff) 20 90\<rparr>
      else if camMode s = FOCUS then s\<lparr>focusDist := clamp (focusDist s - yoff * 2) 3 400\<rparr>
      else s\<lparr>camDist := clamp (camDist s - yoff * 2) 5 400\<rparr>)"

text \<open>The cursor position that \<^verbatim>\<open>glfwGetCursorPos\<close> returns is the argument \<open>(cx, cy)\<close>.\<close>

definition mouse_btn_cb :: "button \<Rightarrow> action \<Rightarrow> real \<Rightarrow> real \<Rightarrow> state \<Rightarrow> state" where
  "mouse_btn_cb b a cx cy s =
     (if b = MOUSE_BUTTON_RIGHT
      then (if a = PRESS then s\<lparr>rmbDown := True, lastX := cx, lastY := cy\<rparr>
            else s\<lparr>rmbDown := False\<rparr>)
      else s)"

definition cursor_cb :: "real \<Rightarrow> real \<Rightarrow> state \<Rightarrow> state" where
  "cursor_cb x y s =
     (if \<not> rmbDown s then s
      else
        (let dx = x - lastX s; dy = y - lastY s;
             s = s\<lparr>lastX := x, lastY := y\<rparr>
         in if camMode s \<noteq> FREE
            then (let s = s\<lparr>camYaw := camYaw s + dx * 0.005,
                              camPitch := camPitch s - dy * 0.005\<rparr>
                  in s\<lparr>camPitch := clamp (camPitch s) (radians (- 89)) (radians 89)\<rparr>)
            else (let s = s\<lparr>freeYaw := freeYaw s + dx * 0.002,
                              freePitch := freePitch s - dy * 0.002\<rparr>
                  in s\<lparr>freePitch := clamp (freePitch s) (radians (- 85)) (radians 85)\<rparr>)))"

text \<open>
  \<^verbatim>\<open>key_cb\<close>. Escape, F11 and Alt+Enter act on the window only and leave the modelled
  state as it is, so the modifier argument is not needed.
\<close>

fun key_press :: "key \<Rightarrow> state \<Rightarrow> state" where
  "key_press KEY_1 s = s\<lparr>camMode := ORBIT\<rparr>"
| "key_press KEY_2 s = s\<lparr>camMode := FREE\<rparr>"
| "key_press KEY_3 s = s\<lparr>camMode := FOCUS\<rparr>"
| "key_press KEY_N s = s\<lparr>focusIndex := (focusIndex s + 1) smod 9\<rparr>"
| "key_press KEY_P s = s\<lparr>focusIndex := (focusIndex s + 8) smod 9\<rparr>"
| "key_press KEY_H s = s\<lparr>showOrbits := \<not> showOrbits s\<rparr>"
| "key_press KEY_B s = s\<lparr>showStars := \<not> showStars s\<rparr>"
| "key_press KEY_LEFT_BRACKET s = s\<lparr>timeScale := max 0 (timeScale s - 0.25)\<rparr>"
| "key_press KEY_RIGHT_BRACKET s = s\<lparr>timeScale := timeScale s + 0.25\<rparr>"
| "key_press KEY_MINUS s = s\<lparr>fovDeg := clamp (fovDeg s - 1) 20 90\<rparr>"
| "key_press KEY_EQUAL s = s\<lparr>fovDeg := clamp (fovDeg s + 1) 20 90\<rparr>"
| "key_press KEY_Z s =
     (if camMode s = FOCUS then s\<lparr>focusDist := max 3 (focusDist s - 2)\<rparr> else s)"
| "key_press KEY_X s =
     (if camMode s = FOCUS then s\<lparr>focusDist := min 400 (focusDist s + 2)\<rparr> else s)"
| "key_press _ s = s"

definition key_cb :: "key \<Rightarrow> action \<Rightarrow> state \<Rightarrow> state" where
  "key_cb k a s = (if a \<noteq> PRESS \<and> a \<noteq> REPEAT then s else key_press k s)"


section \<open>One iteration of the main loop\<close>

text \<open>
  \<open>held\<close> is the set of keys for which \<^verbatim>\<open>glfwGetKey\<close> answers \<^verbatim>\<open>GLFW_PRESS\<close> during the
  frame, \<open>now\<close> the value of \<^verbatim>\<open>glfwGetTime\<close>.
\<close>

definition nudge :: "key set \<Rightarrow> state \<Rightarrow> state" where
  "nudge held s =
     (let s = (if KEY_A \<in> held \<and> camMode s \<noteq> FREE then s\<lparr>camYaw := camYaw s - 0.04\<rparr> else s);
          s = (if KEY_D \<in> held \<and> camMode s \<noteq> FREE then s\<lparr>camYaw := camYaw s + 0.04\<rparr> else s);
          s = (if KEY_Q \<in> held \<and> camMode s \<noteq> FREE then s\<lparr>camPitch := camPitch s + 0.03\<rparr> else s);
          s = (if KEY_E \<in> held \<and> camMode s \<noteq> FREE then s\<lparr>camPitch := camPitch s - 0.03\<rparr> else s)
      in s)"

definition advance :: "bool \<Rightarrow> real \<Rightarrow> real \<Rightarrow> real" where
  "advance is_paused dt scale = (if is_paused then 0 else dt * scale)"

definition spin_body :: "real \<Rightarrow> Planet \<Rightarrow> Planet" where
  "spin_body adv b = b\<lparr>spinAngle := spinAngle b + spinSpeed b * adv\<rparr>"

definition orbit_body :: "real \<Rightarrow> Planet \<Rightarrow> Planet" where
  "orbit_body adv b = b\<lparr>orbitAngle := orbitAngle b + orbitSpeed b * adv\<rparr>"

definition animate :: "real \<Rightarrow> bodies \<Rightarrow> bodies" where
  "animate adv bs =
     bs\<lparr>sun := spin_body adv (sun bs),
        mercury := spin_body adv (orbit_body adv (mercury bs)),
        venus := spin_body adv (orbit_body adv (venus bs)),
        earth := spin_body adv (orbit_body adv (earth bs)),
        moon := spin_body adv (orbit_body adv (moon bs)),
        mars := spin_body adv (orbit_body adv (mars bs)),
        jupiter := spin_body adv (orbit_body adv (jupiter bs)),
        saturn := spin_body adv (orbit_body adv (saturn bs)),
        uranus := spin_body adv (orbit_body adv (uranus bs)),
        neptune := spin_body adv (orbit_body adv (neptune bs)),
        europa := spin_body adv (orbit_body adv (europa bs))\<rparr>"

text \<open>
  The Focus camera reads \<^verbatim>\<open>arr[std::max(0, std::min(8, focusIndex))]\<close> from the array
  of the sun and the eight planets.
\<close>

definition focus_arr :: "bodies \<Rightarrow> Planet list" where
  "focus_arr bs = [sun bs, mercury bs, venus bs, earth bs, mars bs,
                   jupiter bs, saturn bs, uranus bs, neptune bs]"

definition focus_slot :: "state \<Rightarrow> int" where
  "focus_slot s = max 0 (min 8 (focusIndex s))"

definition focus_target :: "state \<Rightarrow> vec3" where
  "focus_target s =
     (let f = focus_arr (planets s) ! nat (focus_slot s)
      in Vec3 (orbitRadius f * cos (radians (orbitAngle f))) 0
              (orbitRadius f * sin (radians (orbitAngle f))))"

definition focus_offset :: "state \<Rightarrow> vec3" where
  "focus_offset s =
     (let cp = cos (camPitch s); spv = sin (camPitch s);
          sy = sin (camYaw s); cy = cos (camYaw s)
      in Vec3 (focusDist s * cp * sy) (focusDist s * spv) (focusDist s * cp * cy))"

text \<open>The Free camera: the held movement keys are applied in the order W, S, A, D, Q, E.\<close>

definition free_move :: "real \<Rightarrow> key set \<Rightarrow> state \<Rightarrow> state" where
  "free_move dt held s =
     (let move = (if rmbDown s then 25 else 8) * dt;
          fwd = Vec3 (sin (freeYaw s)) 0 (- cos (freeYaw s));
          right = normalize (cross fwd (Vec3 0 1 0));
          s = (if KEY_W \<in> held then s\<lparr>freePos := vadd (freePos s) (vscale fwd move)\<rparr> else s);
          s = (if KEY_S \<in> held then s\<lparr>freePos := vsub (freePos s) (vscale fwd move)\<rparr> else s);
          s = (if KEY_A \<in> held then s\<lparr>freePos := vsub (freePos s) (vscale right move)\<rparr> else s);
          s = (if KEY_D \<in> held then s\<lparr>freePos := vadd (freePos s) (vscale right move)\<rparr> else s);
          s = (if KEY_Q \<in> held
               then s\<lparr>freePos := Vec3 (vx (freePos s)) (vy (freePos s) + move) (vz (freePos s))\<rparr>
               else s);
          s = (if KEY_E \<in> held
               then s\<lparr>freePos := Vec3 (vx (freePos s)) (vy (freePos s) - move) (vz (freePos s))\<rparr>
               else s)
      in s)"

definition free_dir :: "state \<Rightarrow> vec3" where
  "free_dir s = Vec3 (cos (freePitch s) * sin (freeYaw s)) (sin (freePitch s))
                     (- cos (freePitch s) * cos (freeYaw s))"

text \<open>The camera build: the state after it, the eye and the target.\<close>

definition camera_build :: "real \<Rightarrow> key set \<Rightarrow> state \<Rightarrow> state \<times> vec3 \<times> vec3" where
  "camera_build dt held s =
     (if camMode s = ORBIT then (s, orbitCamPos s, Vec3 0 0 0)
      else if camMode s = FOCUS
      then (s, vadd (focus_target s) (focus_offset s), focus_target s)
      else (let s = free_move dt held s
            in (s, freePos s, vadd (freePos s) (free_dir s))))"

definition frame :: "real \<Rightarrow> key set \<Rightarrow> state \<Rightarrow> state" where
  "frame now held s =
     (let dt = now - last_time s;
          s = s\<lparr>last_time := now\<rparr>;
          sp = (KEY_SPACE \<in> held);
          s = (if sp \<and> \<not> prevSpace s then s\<lparr>paused := \<not> paused s\<rparr> else s);
          s = s\<lparr>prevSpace := sp\<rparr>;
          s = nudge held s;
          adv = advance (paused s) dt (timeScale s);
          s = s\<lparr>planets := animate adv (planets s)\<rparr>;
          s = fst (camera_build dt held s)
      in s\<lparr>camPitch := clamp (camPitch s) (radians (- 89)) (radians 89),
           camDist := clamp (camDist s) 5 400\<rparr>)"

text \<open>
  What reaches the program from outside, one event at a time: the callbacks run between
  frames, in any order and number.
\<close>

datatype event =
    Scroll real
  | MouseButton button action real real
  | CursorPos real real
  | Key key action
  | Frame real "key set"

fun step :: "event \<Rightarrow> state \<Rightarrow> state" where
  "step (Scroll yoff) s = scroll_cb yoff s"
| "step (MouseButton b a cx cy) s = mouse_btn_cb b a cx cy s"
| "step (CursorPos x y) s = cursor_cb x y s"
| "step (Key k a) s = key_cb k a s"
| "step (Frame now held) s = frame now held s"

definition run :: "event list \<Rightarrow> state \<Rightarrow> state" where
  "run es s = fold step es s"


section \<open>Model matrices\<close>

text \<open>
  \<^verbatim>\<open>glm::mat4\<close> is four columns of \<^verbatim>\<open>glm::vec4\<close>. \<^verbatim>\<open>glm::rotate(m, angle, axis)\<close> and
  \<^verbatim>\<open>glm::translate(m, v)\<close> are functions of the GLM library, which multiply \<open>m\<close> from
  the right by a rotation and by a translation; the definitions below follow the library's
  code entry by entry (\<open>r01\<close> is \<^verbatim>\<open>Rotate[0][1]\<close>, column 0, row 1).
\<close>

datatype vec4 = Vec4 (v4x: real) (v4y: real) (v4z: real) (v4w: real)

datatype mat4 = Mat4 (col0: vec4) (col1: vec4) (col2: vec4) (col3: vec4)

definition v4add :: "vec4 \<Rightarrow> vec4 \<Rightarrow> vec4" where
  "v4add a b = Vec4 (v4x a + v4x b) (v4y a + v4y b) (v4z a + v4z b) (v4w a + v4w b)"

definition v4scale :: "vec4 \<Rightarrow> real \<Rightarrow> vec4" where
  "v4scale a k = Vec4 (v4x a * k) (v4y a * k) (v4z a * k) (v4w a * k)"

text \<open>\<^verbatim>\<open>glm::mat4(1)\<close>\<close>

definition mat_identity :: mat4 where
  "mat_identity = Mat4 (Vec4 1 0 0 0) (Vec4 0 1 0 0) (Vec4 0 0 1 0) (Vec4 0 0 0 1)"

definition rotate :: "mat4 \<Rightarrow> real \<Rightarrow> vec3 \<Rightarrow> mat4" where
  "rotate m angle v =
     (let c = cos angle; s = sin angle;
          axis = normalize v;
          temp = vscale axis (1 - c);
          r00 = c + vx temp * vx axis;
          r01 = vx temp * vy axis + s * vz axis;
          r02 = vx temp * vz axis - s * vy axis;
          r10 = vy temp * vx axis - s * vz axis;
          r11 = c + vy temp * vy axis;
          r12 = vy temp * vz axis + s * vx axis;
          r20 = vz temp * vx axis + s * vy axis;
          r21 = vz temp * vy axis - s * vx axis;
          r22 = c + vz temp * vz axis
      in Mat4
           (v4add (v4add (v4scale (col0 m) r00) (v4scale (col1 m) r01)) (v4scale (col2 m) r02))
           (v4add (v4add (v4scale (col0 m) r10) (v4scale (col1 m) r11)) (v4scale (col2 m) r12))
           (v4add (v4add (v4scale (col0 m) r20) (v4scale (col1 m) r21)) (v4scale (col2 m) r22))
           (col3 m))"

definition translate :: "mat4 \<Rightarrow> vec3 \<Rightarrow> mat4" where
  "translate m v =
     Mat4 (col0 m) (col1 m) (col2 m)
          (v4add (v4add (v4add (v4scale (col0 m) (vx v)) (v4scale (col1 m) (vy v)))
                        (v4scale (col2 m) (vz v)))
                 (col3 m))"

text \<open>The vertex shader: \<^verbatim>\<open>FragPos = vec3(model * vec4(aPos, 1.0))\<close>.\<close>

definition mat_mul_vec :: "mat4 \<Rightarrow> vec4 \<Rightarrow> vec4" where
  "mat_mul_vec m v =
     v4add (v4add (v4add (v4scale (col0 m) (v4x v)) (v4scale (col1 m) (v4y v)))
                  (v4scale (col2 m) (v4z v)))
           (v4scale (col3 m) (v4w v))"

definition FragPos :: "mat4 \<Rightarrow> vec3 \<Rightarrow> vec3" where
  "FragPos model aPos =
     (let q = mat_mul_vec model (Vec4 (vx aPos) (vy aPos) (vz aPos) 1)
      in Vec3 (v4x q) (v4y q) (v4z q))"

text \<open>The model matrix \<open>T\<close> of \<^verbatim>\<open>drawPlanet\<close> and the matrices \<open>Me\<close>, \<open>Mm\<close> of the moon.\<close>

definition drawPlanet_model :: "Planet \<Rightarrow> mat4" where
  "drawPlanet_model p =
     (let T = rotate mat_identity (radians (orbitAngle p)) (Vec3 0 1 0);
          T = translate T (Vec3 (orbitRadius p) 0 0);
          T = rotate T (radians (spinAngle p)) (Vec3 0 1 0)
      in T)"

definition parent_model :: "Planet \<Rightarrow> mat4" where
  "parent_model e =
     (let Me = rotate mat_identity (radians (orbitAngle e)) (Vec3 0 1 0);
          Me = translate Me (Vec3 (orbitRadius e) 0 0)
      in Me)"

definition moon_model :: "Planet \<Rightarrow> Planet \<Rightarrow> mat4" where
  "moon_model e m =
     (let Me = parent_model e;
          Mm = rotate Me (radians (orbitAngle m)) (Vec3 0 1 0);
          Mm = translate Mm (Vec3 (orbitRadius m) 0 0);
          Mm = rotate Mm (radians (spinAngle m)) (Vec3 0 1 0)
      in Mm)"

text \<open>
  The composition in the words of the specification: from the identity, for each ancestor
  from the root down rotate by its orbit angle about the vertical axis, then translate by
  its orbit radius along the reference axis; the same for the body; then rotate by the
  body's spin angle.
\<close>

definition spec_orbit :: "Planet \<Rightarrow> mat4 \<Rightarrow> mat4" where
  "spec_orbit b m =
     translate (rotate m (radians (orbitAngle b)) (Vec3 0 1 0)) (Vec3 (orbitRadius b) 0 0)"

definition spec_world_transform :: "Planet list \<Rightarrow> Planet \<Rightarrow> mat4" where
  "spec_world_transform ancestors b =
     rotate (spec_orbit b (fold spec_orbit ancestors mat_identity))
            (radians (spinAngle b)) (Vec3 0 1 0)"

text \<open>The commuted alternative: each orbit translates first and rotates after.\<close>

definition commuted_orbit :: "Planet \<Rightarrow> mat4 \<Rightarrow> mat4" where
  "commuted_orbit b m =
     rotate (translate m (Vec3 (orbitRadius b) 0 0)) (radians (orbitAngle b)) (Vec3 0 1 0)"

definition commuted_world_transform :: "Planet list \<Rightarrow> Planet \<Rightarrow> mat4" where
  "commuted_world_transform ancestors b =
     rotate (commuted_orbit b (fold commuted_orbit ancestors mat_identity))
            (radians (spinAngle b)) (Vec3 0 1 0)"


section \<open>Invariants and the update contract\<close>

text \<open>The focus index is an index of the nine-element array.\<close>

definition index_ok :: "state \<Rightarrow> bool" where
  "index_ok s \<longleftrightarrow> 0 \<le> focusIndex s \<and> focusIndex s < 9"

text \<open>Both camera distances are within their ranges.\<close>

definition dists_ok :: "state \<Rightarrow> bool" where
  "dists_ok s \<longleftrightarrow> 5 \<le> camDist s \<and> camDist s \<le> 400 \<and> 3 \<le> focusDist s \<and> focusDist s \<le> 400"

text \<open>The eleven bodies, in the order in which the loop animates them.\<close>

definition all_bodies :: "bodies \<Rightarrow> Planet list" where
  "all_bodies bs = [sun bs, mercury bs, venus bs, earth bs, moon bs, mars bs,
                    jupiter bs, saturn bs, uranus bs, neptune bs, europa bs]"

text \<open>
  The update contract in the words of the specification:
  \<^verbatim>\<open>orbitAngle += orbitSpeed * advance; spinAngle += spinSpeed * advance\<close>.
\<close>

definition spec_update_body :: "real \<Rightarrow> Planet \<Rightarrow> Planet" where
  "spec_update_body adv b =
     b\<lparr>orbitAngle := orbitAngle b + orbitSpeed b * adv,
       spinAngle := spinAngle b + spinSpeed b * adv\<rparr>"


section \<open>Sizes of the generated meshes\<close>

lemma length_sphere_row:
  "length (sphere_row stacks slices r i v) = length v + nat (slices + 1)"
proof -
  have "length (fold (\<lambda>j v. v @ [sphere_vertex stacks slices r i j]) js v)
          = length v + length js" for js
    by (induction js arbitrary: v) simp_all
  then show ?thesis by (simp add: sphere_row_def)
qed

lemma length_fold_sphere_row:
  "length (fold (sphere_row stacks slices r) is v)
     = length v + length is * nat (slices + 1)"
  by (induction "is" arbitrary: v) (simp_all add: length_sphere_row)

lemma length_fold_sphere_quad:
  "length (fold (sphere_quad slices i) js idx) = length idx + 6 * length js"
  by (induction js arbitrary: idx) (simp_all add: sphere_quad_def Let_def)

lemma length_fold_sphere_quads:
  "length (fold (\<lambda>i idx. fold (sphere_quad slices i) [0..slices - 1] idx) is idx)
     = length idx + length is * (6 * nat slices)"
  by (induction "is" arbitrary: idx) (simp_all add: length_fold_sphere_quad)

lemma sphere_vertex_count:
  "length (fst (buildSphere stacks slices r)) = nat (stacks + 1) * nat (slices + 1)"
  by (simp add: buildSphere_def Let_def length_fold_sphere_row)

lemma sphere_index_count:
  "length (snd (buildSphere stacks slices r)) = 6 * nat stacks * nat slices"
  by (simp add: buildSphere_def Let_def length_fold_sphere_quads)

lemma fst_fold_ring_step:
  "length (fst (fold (ring_step segments a b) is m)) = length (fst m) + 2 * length is"
  by (induction "is" arbitrary: m) (simp_all add: ring_step_def Let_def)

lemma snd_fold_ring_step:
  "length (snd (fold (ring_step segments a b) is m))
     = length (snd m) + 6 * length (filter (\<lambda>i. i < segments) is)"
  by (induction "is" arbitrary: m) (simp_all add: ring_step_def Let_def)

lemma filter_less_upto: "filter (\<lambda>i. i < n) [0..n] = [0..n - 1]"
proof (cases "0 \<le> n")
  case True
  then have "[0..n] = [0..n - 1] @ [n]" by (rule upto_rec2)
  moreover have "filter (\<lambda>i. i < n) [0..n - 1] = [0..n - 1]"
    by (rule filter_True) simp
  ultimately show ?thesis by simp
next
  case False
  then show ?thesis by simp
qed

lemma ring_vertex_count:
  "length (fst (buildRing segments a b)) = 2 * nat (segments + 1)"
  by (simp add: buildRing_def fst_fold_ring_step)

lemma ring_index_count:
  "length (snd (buildRing segments a b)) = 6 * nat segments"
  by (simp add: buildRing_def snd_fold_ring_step filter_less_upto)

lemma fold_orbit_step:
  "fold (orbit_step segments r) is m
     = (fst m @ map (\<lambda>i. Vec3 (r * cos (real_of_int i / real_of_int segments * (2 * pi))) 0
                              (r * sin (real_of_int i / real_of_int segments * (2 * pi)))) is,
        snd m @ concat (map (\<lambda>i. [i, (i + 1) smod segments]) is))"
  by (induction "is" arbitrary: m) (simp_all add: orbit_step_def Let_def)

lemma length_concat_pairs:
  "length (concat (map (\<lambda>i. [f i, g i]) is)) = 2 * length is"
  by (induction "is") simp_all

lemma orbit_vertex_count: "length (fst (buildOrbitLine segments r)) = nat segments"
  by (simp add: buildOrbitLine_def fold_orbit_step)

lemma orbit_index_count: "length (snd (buildOrbitLine segments r)) = 2 * nat segments"
  by (simp add: buildOrbitLine_def fold_orbit_step length_concat_pairs)

lemma orbit_last_pair:
  assumes "1 \<le> segments"
  shows "drop (2 * nat segments - 2) (snd (buildOrbitLine segments r)) = [segments - 1, 0]"
proof -
  have split: "[0..segments - 1] = [0..segments - 2] @ [segments - 1]"
    using assms upto_rec2 [of 0 "segments - 1"] by simp
  have len: "length (concat (map (\<lambda>i. [i, (i + 1) smod segments]) [0..segments - 2]))
               = 2 * nat segments - 2"
    using assms by (simp add: length_concat_pairs)
  have "snd (buildOrbitLine segments r)
          = concat (map (\<lambda>i. [i, (i + 1) smod segments]) [0..segments - 2])
            @ [segments - 1, 0]"
    unfolding buildOrbitLine_def fold_orbit_step
    by (simp add: split signed_modulo_int_def)
  then show ?thesis using len by simp
qed


section \<open>Which fields each part of the loop writes\<close>

lemma nudge_keeps:
  "camMode (nudge held s) = camMode s"
  "camDist (nudge held s) = camDist s"
  "focusDist (nudge held s) = focusDist s"
  "focusIndex (nudge held s) = focusIndex s"
  "planets (nudge held s) = planets s"
  "paused (nudge held s) = paused s"
  "timeScale (nudge held s) = timeScale s"
  "rmbDown (nudge held s) = rmbDown s"
  "freePos (nudge held s) = freePos s"
  "freeYaw (nudge held s) = freeYaw s"
  "freePitch (nudge held s) = freePitch s"
  by (simp_all add: nudge_def Let_def)

lemma free_move_keeps:
  "camMode (free_move dt held s) = camMode s"
  "camDist (free_move dt held s) = camDist s"
  "camYaw (free_move dt held s) = camYaw s"
  "camPitch (free_move dt held s) = camPitch s"
  "focusDist (free_move dt held s) = focusDist s"
  "focusIndex (free_move dt held s) = focusIndex s"
  "planets (free_move dt held s) = planets s"
  "paused (free_move dt held s) = paused s"
  "timeScale (free_move dt held s) = timeScale s"
  by (simp_all add: free_move_def Let_def)

lemma camera_build_keeps:
  "camMode (fst (camera_build dt held s)) = camMode s"
  "camDist (fst (camera_build dt held s)) = camDist s"
  "camYaw (fst (camera_build dt held s)) = camYaw s"
  "camPitch (fst (camera_build dt held s)) = camPitch s"
  "focusDist (fst (camera_build dt held s)) = focusDist s"
  "focusIndex (fst (camera_build dt held s)) = focusIndex s"
  "planets (fst (camera_build dt held s)) = planets s"
  "paused (fst (camera_build dt held s)) = paused s"
  "timeScale (fst (camera_build dt held s)) = timeScale s"
  by (simp_all add: camera_build_def Let_def free_move_keeps)

lemma frame_keeps:
  "camMode (frame now held s) = camMode s"
  "focusDist (frame now held s) = focusDist s"
  "focusIndex (frame now held s) = focusIndex s"
  "timeScale (frame now held s) = timeScale s"
  by (simp_all add: frame_def Let_def camera_build_keeps nudge_keeps)

lemma frame_camDist: "camDist (frame now held s) = clamp (camDist s) 5 400"
  by (simp add: frame_def Let_def camera_build_keeps nudge_keeps)

lemma frame_paused:
  "paused (frame now held s)
     = (if KEY_SPACE \<in> held \<and> \<not> prevSpace s then \<not> paused s else paused s)"
  by (simp add: frame_def Let_def camera_build_keeps nudge_keeps)

lemma frame_planets:
  "planets (frame now held s)
     = animate (advance (paused (frame now held s)) (now - last_time s) (timeScale s))
         (planets s)"
  unfolding frame_paused
  by (simp add: frame_def Let_def camera_build_keeps nudge_keeps)


section \<open>The focus index\<close>

lemma smod_9_nonneg: "0 \<le> a \<Longrightarrow> a smod 9 = a mod (9::int)"
  by (simp add: signed_modulo_int_def sgn_if)

lemma key_N_index:
  "0 \<le> focusIndex s \<Longrightarrow> a \<noteq> RELEASE
     \<Longrightarrow> focusIndex (key_cb KEY_N a s) = (focusIndex s + 1) mod 9"
  by (cases a) (simp_all add: key_cb_def smod_9_nonneg)

lemma key_P_index:
  "0 \<le> focusIndex s \<Longrightarrow> a \<noteq> RELEASE
     \<Longrightarrow> focusIndex (key_cb KEY_P a s) = (focusIndex s + 8) mod 9"
  by (cases a) (simp_all add: key_cb_def smod_9_nonneg)

lemma key_N_iterated:
  assumes "0 \<le> focusIndex s"
  shows "focusIndex ((key_cb KEY_N PRESS ^^ Suc k) s) = (focusIndex s + int (Suc k)) mod 9"
proof (induction k)
  case 0
  show ?case using assms by (simp add: key_N_index)
next
  case (Suc k)
  have nonneg: "0 \<le> focusIndex ((key_cb KEY_N PRESS ^^ Suc k) s)"
    by (simp only: Suc.IH pos_mod_sign)
  have "(key_cb KEY_N PRESS ^^ Suc (Suc k)) s
          = key_cb KEY_N PRESS ((key_cb KEY_N PRESS ^^ Suc k) s)"
    by (simp only: funpow.simps o_apply)
  then have "focusIndex ((key_cb KEY_N PRESS ^^ Suc (Suc k)) s)
          = (focusIndex ((key_cb KEY_N PRESS ^^ Suc k) s) + 1) mod 9"
    using key_N_index [OF nonneg, of PRESS] by simp
  also have "\<dots> = ((focusIndex s + int (Suc k)) mod 9 + 1) mod 9"
    by (simp only: Suc.IH)
  also have "\<dots> = (focusIndex s + int (Suc k) + 1) mod 9"
    by (rule mod_add_left_eq)
  also have "focusIndex s + int (Suc k) + 1 = focusIndex s + int (Suc (Suc k))"
    by simp
  finally show ?case .
qed

lemma key_press_index_ok: "index_ok s \<Longrightarrow> index_ok (key_press k s)"
  by (cases k) (simp_all add: index_ok_def smod_9_nonneg)

lemma step_index_ok: "index_ok s \<Longrightarrow> index_ok (step e s)"
proof (cases e)
  case (Key k a)
  assume "index_ok s"
  then show ?thesis using Key by (simp add: key_cb_def key_press_index_ok)
next
  case (Frame now held)
  assume "index_ok s"
  then show ?thesis using Frame by (simp add: index_ok_def frame_keeps)
qed (simp_all add: index_ok_def scroll_cb_def mouse_btn_cb_def cursor_cb_def Let_def)

lemma run_index_ok: "index_ok s \<Longrightarrow> index_ok (run es s)"
  unfolding run_def by (induction es arbitrary: s) (simp_all add: step_index_ok)


section \<open>The camera distances\<close>

lemma clamp_bounds: "lo \<le> hi \<Longrightarrow> lo \<le> clamp x lo hi \<and> clamp x lo hi \<le> hi"
  by (simp add: clamp_def)

lemma key_press_dists_ok: "dists_ok s \<Longrightarrow> dists_ok (key_press k s)"
  by (cases k) (simp_all add: dists_ok_def)

lemma scroll_cb_dists_ok: "dists_ok s \<Longrightarrow> dists_ok (scroll_cb yoff s)"
  using clamp_bounds [of 3 400 "focusDist s - yoff * 2"]
        clamp_bounds [of 5 400 "camDist s - yoff * 2"]
  by (simp add: dists_ok_def scroll_cb_def)

lemma frame_dists_ok: "dists_ok s \<Longrightarrow> dists_ok (frame now held s)"
  using clamp_bounds [of 5 400 "camDist s"]
  by (simp add: dists_ok_def frame_keeps frame_camDist)

lemma step_dists_ok: "dists_ok s \<Longrightarrow> dists_ok (step e s)"
proof (cases e)
  case (Scroll yoff)
  assume "dists_ok s"
  then show ?thesis using Scroll by (simp add: scroll_cb_dists_ok)
next
  case (Key k a)
  assume "dists_ok s"
  then show ?thesis using Key by (simp add: key_cb_def key_press_dists_ok)
next
  case (Frame now held)
  assume "dists_ok s"
  then show ?thesis using Frame by (simp add: frame_dists_ok)
qed (simp_all add: dists_ok_def mouse_btn_cb_def cursor_cb_def Let_def)

lemma run_dists_ok: "dists_ok s \<Longrightarrow> dists_ok (run es s)"
  unfolding run_def by (induction es arbitrary: s) (simp_all add: step_dists_ok)


section \<open>The clock and the angles\<close>

text \<open>
  The loop leaves out the orbit update of the sun; its orbit speed is \<open>0\<close> from its
  construction on, and no event changes a speed.
\<close>

lemma animate_is_spec_update:
  assumes "orbitSpeed (sun bs) = 0"
  shows "all_bodies (animate adv bs) = map (spec_update_body adv) (all_bodies bs)"
  using assms
  by (simp add: all_bodies_def animate_def spin_body_def orbit_body_def spec_update_body_def)

lemma animate_sun_speed: "orbitSpeed (sun (animate adv bs)) = orbitSpeed (sun bs)"
  by (simp add: animate_def spin_body_def)

lemma step_sun_speed: "orbitSpeed (sun (planets (step e s))) = orbitSpeed (sun (planets s))"
proof (cases e)
  case (Key k a)
  have "planets (key_press k s) = planets s" by (cases k) simp_all
  then show ?thesis using Key by (simp add: key_cb_def)
next
  case (Frame now held)
  then show ?thesis by (simp add: frame_planets animate_sun_speed)
qed (simp_all add: scroll_cb_def mouse_btn_cb_def cursor_cb_def Let_def)

lemma reachable_sun_speed: "orbitSpeed (sun (planets (run es (init_state t0)))) = 0"
proof -
  have "orbitSpeed (sun (planets (fold step es s))) = orbitSpeed (sun (planets s))" for s
    by (induction es arbitrary: s) (simp_all add: step_sun_speed)
  then show ?thesis
    by (simp add: run_def init_state_def init_bodies_def mk_planet_def)
qed


section \<open>The Free camera\<close>

lemma free_right:
  "normalize (cross (Vec3 (sin a) 0 (- cos a)) (Vec3 0 1 0)) = Vec3 (cos a) 0 (sin a)"
  by (simp add: normalize_def cross_def vdot_def vscale_def)

lemma if_pos_add:
  "(if c then t\<lparr>freePos := vadd (freePos t) v\<rparr> else t)
     = t\<lparr>freePos := vadd (freePos t) (vscale v (of_bool c))\<rparr>"
  by (cases c) (simp_all add: vadd_def vscale_def)

lemma if_pos_sub:
  "(if c then t\<lparr>freePos := vsub (freePos t) v\<rparr> else t)
     = t\<lparr>freePos := vadd (freePos t) (vscale v (- of_bool c))\<rparr>"
  by (cases c) (simp_all add: vadd_def vsub_def vscale_def)

lemma if_pos_up:
  "(if c then t\<lparr>freePos := Vec3 (vx (freePos t)) (vy (freePos t) + m) (vz (freePos t))\<rparr> else t)
     = t\<lparr>freePos := vadd (freePos t) (vscale (Vec3 0 1 0) (of_bool c * m))\<rparr>"
  by (cases c) (simp_all add: vadd_def vscale_def)

lemma if_pos_down:
  "(if c then t\<lparr>freePos := Vec3 (vx (freePos t)) (vy (freePos t) - m) (vz (freePos t))\<rparr> else t)
     = t\<lparr>freePos := vadd (freePos t) (vscale (Vec3 0 1 0) (- of_bool c * m))\<rparr>"
  by (cases c) (simp_all add: vadd_def vscale_def)

lemma free_move_state:
  "free_move dt held s =
     s\<lparr>freePos :=
        (let move = (if rmbDown s then 25 else 8) * dt;
             fwd = Vec3 (sin (freeYaw s)) 0 (- cos (freeYaw s));
             right = Vec3 (cos (freeYaw s)) 0 (sin (freeYaw s));
             up = Vec3 0 1 0;
             w = of_bool (KEY_W \<in> held) - of_bool (KEY_S \<in> held);
             d = of_bool (KEY_D \<in> held) - of_bool (KEY_A \<in> held);
             q = of_bool (KEY_Q \<in> held) - of_bool (KEY_E \<in> held)
         in vadd (freePos s)
              (vadd (vscale fwd (w * move))
                 (vadd (vscale right (d * move)) (vscale up (q * move)))))\<rparr>"
  unfolding free_move_def Let_def free_right if_pos_add if_pos_sub if_pos_up if_pos_down
  by (simp add: vadd_def vscale_def algebra_simps split del: if_split)

lemma free_move_pitch:
  "free_move dt held (s\<lparr>freePitch := p\<rparr>) = (free_move dt held s)\<lparr>freePitch := p\<rparr>"
  by (simp add: free_move_state Let_def split del: if_split)


section \<open>Rotation about the vertical axis\<close>

lemma rotate_y:
  "rotate m a (Vec3 0 1 0) =
     Mat4 (v4add (v4scale (col0 m) (cos a)) (v4scale (col2 m) (- sin a)))
          (col1 m)
          (v4add (v4scale (col0 m) (sin a)) (v4scale (col2 m) (cos a)))
          (col3 m)"
  by (simp add: rotate_def Let_def normalize_def vdot_def vscale_def v4add_def v4scale_def)

lemma rotate_y_origin: "FragPos (rotate m a (Vec3 0 1 0)) (Vec3 0 0 0) = FragPos m (Vec3 0 0 0)"
  by (simp add: rotate_y FragPos_def mat_mul_vec_def v4add_def v4scale_def)

lemma parent_model_origin:
  "FragPos (parent_model e) (Vec3 0 0 0)
     = Vec3 (orbitRadius e * cos (radians (orbitAngle e))) 0
            (- (orbitRadius e * sin (radians (orbitAngle e))))"
  by (simp add: parent_model_def Let_def rotate_y translate_def mat_identity_def FragPos_def
      mat_mul_vec_def v4add_def v4scale_def)

lemma moon_model_origin:
  "FragPos (moon_model e m) (Vec3 0 0 0)
     = Vec3 (orbitRadius e * cos (radians (orbitAngle e))
             + orbitRadius m * (cos (radians (orbitAngle e)) * cos (radians (orbitAngle m))
                                - sin (radians (orbitAngle e)) * sin (radians (orbitAngle m))))
            0
            (- (orbitRadius e * sin (radians (orbitAngle e)))
             - orbitRadius m * (sin (radians (orbitAngle e)) * cos (radians (orbitAngle m))
                                + cos (radians (orbitAngle e)) * sin (radians (orbitAngle m))))"
  unfolding moon_model_def Let_def rotate_y_origin
  by (simp add: parent_model_def Let_def rotate_y translate_def mat_identity_def FragPos_def
      mat_mul_vec_def v4add_def v4scale_def algebra_simps)

lemma commuted_moon_origin:
  "FragPos (commuted_world_transform [e] m) (Vec3 0 0 0)
     = Vec3 (orbitRadius e + orbitRadius m * cos (radians (orbitAngle e))) 0
            (- (orbitRadius m * sin (radians (orbitAngle e))))"
  unfolding commuted_world_transform_def rotate_y_origin
  by (simp add: commuted_orbit_def rotate_y translate_def mat_identity_def FragPos_def
      mat_mul_vec_def v4add_def v4scale_def algebra_simps)

lemma radians_90: "cos (radians 90) = 0" "sin (radians 90) = 1"
  by (simp_all add: radians_def)

lemma radians_0: "cos (radians 0) = 1" "sin (radians 0) = 0"
  by (simp_all add: radians_def)

lemma radians_mono: "a \<le> b \<Longrightarrow> radians a \<le> radians b"
  by (simp add: radians_def mult_right_mono)

lemma spec_orbit_root:
  assumes "orbitRadius b = 0" and "orbitAngle b = 0"
  shows "spec_orbit b mat_identity = mat_identity"
  using assms
  by (simp add: spec_orbit_def rotate_y translate_def mat_identity_def radians_0
      v4add_def v4scale_def)


section \<open>Claims on the mesh builders\<close>

text \<open>
  C4. For all stacks \<open>s \<ge> 1\<close> and slices \<open>t \<ge> 1\<close>, \<open>buildSphere s t r\<close> produces exactly
  \<open>(s + 1) * (t + 1)\<close> vertices and exactly \<open>6 * s * t\<close> triangle indices, and the index
  count stored in the mesh is that number.
\<close>

theorem buildSphere_counts:
  assumes "1 \<le> s" and "1 \<le> t"
  shows "int (length (fst (buildSphere s t r))) = (s + 1) * (t + 1)
       \<and> int (length (snd (buildSphere s t r))) = 6 * s * t
       \<and> indexCount (buildSphere s t r) = 6 * s * t"
  using assms by (simp add: sphere_vertex_count sphere_index_count indexCount_def)

theorem buildSphere_counts_witness:
  "(1::int) \<le> 2 \<and> (1::int) \<le> 3
   \<and> int (length (fst (buildSphere 2 3 1))) = 12
   \<and> int (length (snd (buildSphere 2 3 1))) = 36
   \<and> indexCount (buildSphere 2 3 1) = 36"
  using buildSphere_counts [of 2 3 1] by simp

text \<open>
  C5. For all segments \<open>n \<ge> 1\<close>, \<open>buildRing n inner outer\<close> produces exactly
  \<open>2 * (n + 1)\<close> vertices and \<open>6 * n\<close> indices, and \<open>buildOrbitLine n r\<close> produces exactly
  \<open>n\<close> vertices and \<open>2 * n\<close> line indices, the last two of which are \<open>n - 1\<close> and \<open>0\<close>:
  the final segment runs from the last point back to the first.
\<close>

theorem buildRing_buildOrbitLine_counts:
  assumes "1 \<le> n"
  shows "int (length (fst (buildRing n inner outer))) = 2 * (n + 1)
       \<and> int (length (snd (buildRing n inner outer))) = 6 * n
       \<and> int (length (fst (buildOrbitLine n r))) = n
       \<and> int (length (snd (buildOrbitLine n r))) = 2 * n
       \<and> drop (2 * nat n - 2) (snd (buildOrbitLine n r)) = [n - 1, 0]"
  using assms
  by (simp add: ring_vertex_count ring_index_count orbit_vertex_count orbit_index_count
      orbit_last_pair)

theorem buildRing_buildOrbitLine_counts_witness:
  "(1::int) \<le> 3
   \<and> int (length (fst (buildRing 3 1 2))) = 8
   \<and> int (length (snd (buildRing 3 1 2))) = 18
   \<and> int (length (fst (buildOrbitLine 3 1))) = 3
   \<and> int (length (snd (buildOrbitLine 3 1))) = 6
   \<and> drop 4 (snd (buildOrbitLine 3 1)) = [2, 0]"
  using buildRing_buildOrbitLine_counts [of 3 1 2 1] by simp

text \<open>
  C3 (as stated in the specification: a zero or negative count is rejected or floored to a
  minimum before any geometry is generated). The builders have no such check. With
  \<open>stacks = 0\<close>, \<open>buildSphere\<close> runs the row \<open>i = 0\<close> and emits one vertex per column,
  each computed by the vertex formula with the divisor \<open>stacks = 0\<close>; the result is neither
  empty nor the mesh of a floored count, which would have at least the six vertices of
  \<open>stacks = 1\<close>. \<open>buildRing\<close> with \<open>segments = 0\<close> likewise emits the two vertices of
  \<open>i = 0\<close>.
\<close>

theorem degenerate_counts_counterexample:
  "fst (buildSphere 0 2 1)
     = [sphere_vertex 0 2 1 0 0, sphere_vertex 0 2 1 0 1, sphere_vertex 0 2 1 0 2]
   \<and> length (fst (buildSphere 1 2 1)) = 6
   \<and> length (fst (buildRing 0 1 2)) = 2
   \<and> length (fst (buildRing 1 1 2)) = 4"
proof -
  have "[0..2] = [0, 1, 2::int]"
    by (simp add: upto.simps)
  then have "fst (buildSphere 0 2 1)
     = [sphere_vertex 0 2 1 0 0, sphere_vertex 0 2 1 0 1, sphere_vertex 0 2 1 0 2]"
    by (simp add: buildSphere_def sphere_row_def)
  then show ?thesis
    by (simp add: sphere_vertex_count ring_vertex_count)
qed

text \<open>
  C3 (amended). No builder validates its counts; what a non-positive count produces is
  what the loop bounds leave. \<open>buildSphere\<close> with \<open>stacks \<le> 0\<close> emits no index, one row
  of \<open>slices + 1\<close> vertices when \<open>stacks = 0\<close> and no vertex when \<open>stacks < 0\<close>;
  \<open>buildRing\<close> with \<open>segments \<le> 0\<close> emits no index, two vertices when \<open>segments = 0\<close>
  and none when \<open>segments < 0\<close>; \<open>buildOrbitLine\<close> with \<open>segments \<le> 0\<close> emits nothing.
\<close>

theorem degenerate_counts_unguarded:
  assumes "stacks \<le> 0" and "segments \<le> 0"
  shows "snd (buildSphere stacks slices r) = []
       \<and> fst (buildSphere stacks slices r)
           = (if stacks = 0 then sphere_row 0 slices r 0 [] else [])
       \<and> length (fst (buildSphere stacks slices r))
           = (if stacks = 0 then nat (slices + 1) else 0)
       \<and> snd (buildRing segments inner outer) = []
       \<and> length (fst (buildRing segments inner outer)) = (if segments = 0 then 2 else 0)
       \<and> buildOrbitLine segments r = ([], [])"
proof -
  have "snd (buildSphere stacks slices r) = []"
    using assms(1) by (simp add: buildSphere_def)
  moreover have "fst (buildSphere stacks slices r)
           = (if stacks = 0 then sphere_row 0 slices r 0 [] else [])"
    using assms(1) by (simp add: buildSphere_def)
  moreover have "length (fst (buildSphere stacks slices r))
           = (if stacks = 0 then nat (slices + 1) else 0)"
    using assms(1) by (simp add: sphere_vertex_count)
  moreover have "snd (buildRing segments inner outer) = []"
    using assms(2) ring_index_count [of segments inner outer] by simp
  moreover have "length (fst (buildRing segments inner outer))
           = (if segments = 0 then 2 else 0)"
    using assms(2) by (simp add: ring_vertex_count)
  moreover have "buildOrbitLine segments r = ([], [])"
    using assms(2) by (simp add: buildOrbitLine_def)
  ultimately show ?thesis by simp
qed

theorem degenerate_counts_unguarded_witness:
  "(0::int) \<le> 0
   \<and> snd (buildSphere 0 2 1) = []
   \<and> length (fst (buildSphere 0 2 1)) = 3
   \<and> snd (buildRing 0 1 2) = []
   \<and> length (fst (buildRing 0 1 2)) = 2
   \<and> buildOrbitLine 0 1 = ([], [])"
  using degenerate_counts_unguarded [of 0 0 2 1 1 2] by (simp add: length_sphere_row)


section \<open>Claims on the focus index and the camera distances\<close>

text \<open>
  C6. From every focus index of the nine-element body list (\<open>0\<close> to \<open>8\<close>), nine presses
  of N lead back to the same index, and P followed by N leaves the index as it was.
\<close>

theorem focus_cycle_identity:
  assumes "0 \<le> focusIndex s" and "focusIndex s < 9"
  shows "focusIndex ((key_cb KEY_N PRESS ^^ 9) s) = focusIndex s
       \<and> focusIndex (key_cb KEY_N PRESS (key_cb KEY_P PRESS s)) = focusIndex s"
proof -
  have "focusIndex ((key_cb KEY_N PRESS ^^ Suc 8) s) = (focusIndex s + int (Suc 8)) mod 9"
    using assms(1) by (rule key_N_iterated)
  then have nine: "focusIndex ((key_cb KEY_N PRESS ^^ 9) s) = focusIndex s"
    using assms by simp
  have "0 \<le> focusIndex (key_cb KEY_P PRESS s)"
    using assms(1) by (simp add: key_P_index)
  then have "focusIndex (key_cb KEY_N PRESS (key_cb KEY_P PRESS s))
               = ((focusIndex s + 8) mod 9 + 1) mod 9"
    using assms(1) by (simp add: key_N_index key_P_index)
  also have "\<dots> = (focusIndex s + 9) mod 9"
    by (simp add: mod_add_left_eq)
  also have "\<dots> = focusIndex s"
    using assms by simp
  finally show ?thesis using nine by simp
qed

theorem focus_cycle_identity_witness:
  "0 \<le> focusIndex (init_state 0\<lparr>focusIndex := 7\<rparr>)
   \<and> focusIndex (init_state 0\<lparr>focusIndex := 7\<rparr>) < 9
   \<and> focusIndex ((key_cb KEY_N PRESS ^^ 9) (init_state 0\<lparr>focusIndex := 7\<rparr>)) = 7
   \<and> focusIndex (key_cb KEY_N PRESS (key_cb KEY_P PRESS (init_state 0\<lparr>focusIndex := 7\<rparr>))) = 7"
  using focus_cycle_identity [of "init_state 0\<lparr>focusIndex := 7\<rparr>"] by simp

text \<open>
  C7. Starting from an index within the nine-element list (the program starts at \<open>0\<close>),
  after any sequence of events, N and P presses among them, the focus index is still
  within \<open>0\<close> to \<open>8\<close>; N wraps from \<open>8\<close> to \<open>0\<close> and P from \<open>0\<close> to \<open>8\<close>; the slot the
  Focus camera reads is the focus index itself and lies within the array.
\<close>

theorem focus_index_in_bounds:
  assumes "0 \<le> focusIndex s" and "focusIndex s < 9"
  shows "0 \<le> focusIndex (run es s) \<and> focusIndex (run es s) < 9
       \<and> focus_slot (run es s) = focusIndex (run es s)
       \<and> nat (focus_slot (run es s)) < length (focus_arr (planets (run es s)))
       \<and> focusIndex (key_cb KEY_N PRESS (s\<lparr>focusIndex := 8\<rparr>)) = 0
       \<and> focusIndex (key_cb KEY_P PRESS (s\<lparr>focusIndex := 0\<rparr>)) = 8"
proof -
  have "index_ok s"
    using assms by (simp add: index_ok_def)
  then have "index_ok (run es s)"
    by (rule run_index_ok)
  then have "0 \<le> focusIndex (run es s)" and "focusIndex (run es s) < 9"
    by (simp_all add: index_ok_def)
  then show ?thesis
    by (simp add: focus_slot_def focus_arr_def key_cb_def signed_modulo_int_def)
qed

theorem focus_index_in_bounds_witness:
  "0 \<le> focusIndex (init_state 0) \<and> focusIndex (init_state 0) < 9
   \<and> 0 \<le> focusIndex (run [Key KEY_P PRESS, Key KEY_P REPEAT, Frame 1 {}] (init_state 0))
   \<and> focusIndex (run [Key KEY_P PRESS, Key KEY_P REPEAT, Frame 1 {}] (init_state 0)) < 9"
  using focus_index_in_bounds
          [of "init_state 0" "[Key KEY_P PRESS, Key KEY_P REPEAT, Frame 1 {}]"]
  by (simp add: init_state_def)

text \<open>
  C8. Starting from distances within their ranges (the program starts at \<open>45\<close> and
  \<open>12\<close>), after any sequence of events, scroll inputs of any size and sign among them, the
  Orbit distance is within \<open>[5, 400]\<close> and the Focus distance within \<open>[3, 400]\<close>.
\<close>

theorem camera_distances_in_range:
  assumes "5 \<le> camDist s" and "camDist s \<le> 400"
    and "3 \<le> focusDist s" and "focusDist s \<le> 400"
  shows "5 \<le> camDist (run es s) \<and> camDist (run es s) \<le> 400
       \<and> 3 \<le> focusDist (run es s) \<and> focusDist (run es s) \<le> 400"
proof -
  have "dists_ok s" using assms by (simp add: dists_ok_def)
  then have "dists_ok (run es s)" by (rule run_dists_ok)
  then show ?thesis by (simp add: dists_ok_def)
qed

theorem camera_distances_in_range_witness:
  "5 \<le> camDist (init_state 0) \<and> camDist (init_state 0) \<le> 400
   \<and> 3 \<le> focusDist (init_state 0) \<and> focusDist (init_state 0) \<le> 400
   \<and> 5 \<le> camDist (run [Scroll 1000, Key KEY_3 PRESS, Scroll (- 1000)] (init_state 0))
   \<and> camDist (run [Scroll 1000, Key KEY_3 PRESS, Scroll (- 1000)] (init_state 0)) \<le> 400
   \<and> 3 \<le> focusDist (run [Scroll 1000, Key KEY_3 PRESS, Scroll (- 1000)] (init_state 0))
   \<and> focusDist (run [Scroll 1000, Key KEY_3 PRESS, Scroll (- 1000)] (init_state 0)) \<le> 400"
  using camera_distances_in_range
          [of "init_state 0" "[Scroll 1000, Key KEY_3 PRESS, Scroll (- 1000)]"]
  by (simp add: init_state_def)


section \<open>Claims on the clock\<close>

text \<open>
  C2. In a frame with elapsed time \<open>dt = now - last_time\<close>, for each of the eleven bodies:
  if the simulation is paused, the orbit angle and the spin angle are as before the frame;
  if not, the orbit angle has grown by \<open>orbitSpeed * dt * timeScale\<close> and the spin angle by
  \<open>spinSpeed * dt * timeScale\<close>. The bodies after the frame are the bodies before it
  updated with the one value \<open>advance\<close> (\<open>0\<close> when paused, else \<open>dt * timeScale\<close>), so
  time reaches the angles through that value alone. The pause flag is the one the frame
  uses: the flag at the start of the frame, flipped when the space bar has just gone down.
  The sun's orbit speed is \<open>0\<close> in every state the program reaches.
\<close>

theorem frame_advances_angles:
  assumes "orbitSpeed (sun (planets s)) = 0"
  shows "(\<forall>k < length (all_bodies (planets s)).
            (paused (frame now held s) \<longrightarrow>
               orbitAngle (all_bodies (planets (frame now held s)) ! k)
                 = orbitAngle (all_bodies (planets s) ! k)
             \<and> spinAngle (all_bodies (planets (frame now held s)) ! k)
                 = spinAngle (all_bodies (planets s) ! k))
          \<and> (\<not> paused (frame now held s) \<longrightarrow>
               orbitAngle (all_bodies (planets (frame now held s)) ! k)
                 = orbitAngle (all_bodies (planets s) ! k)
                   + orbitSpeed (all_bodies (planets s) ! k) * (now - last_time s) * timeScale s
             \<and> spinAngle (all_bodies (planets (frame now held s)) ! k)
                 = spinAngle (all_bodies (planets s) ! k)
                   + spinSpeed (all_bodies (planets s) ! k) * (now - last_time s) * timeScale s))
       \<and> all_bodies (planets (frame now held s))
           = map (spec_update_body
                    (advance (paused (frame now held s)) (now - last_time s) (timeScale s)))
               (all_bodies (planets s))
       \<and> paused (frame now held s)
           = (if KEY_SPACE \<in> held \<and> \<not> prevSpace s then \<not> paused s else paused s)"
proof -
  let ?adv = "advance (paused (frame now held s)) (now - last_time s) (timeScale s)"
  have all: "all_bodies (planets (frame now held s))
               = map (spec_update_body ?adv) (all_bodies (planets s))"
    by (simp only: frame_planets animate_is_spec_update [OF assms])
  have each: "all_bodies (planets (frame now held s)) ! k
               = spec_update_body ?adv (all_bodies (planets s) ! k)"
    if "k < length (all_bodies (planets s))" for k
    using that by (simp only: all nth_map)
  have "orbitAngle (spec_update_body ?adv b) = orbitAngle b
      \<and> spinAngle (spec_update_body ?adv b) = spinAngle b"
    if "paused (frame now held s)" for b
    using that by (simp add: spec_update_body_def advance_def)
  moreover have "orbitAngle (spec_update_body ?adv b)
                   = orbitAngle b + orbitSpeed b * (now - last_time s) * timeScale s
      \<and> spinAngle (spec_update_body ?adv b)
                   = spinAngle b + spinSpeed b * (now - last_time s) * timeScale s"
    if "\<not> paused (frame now held s)" for b
    using that by (simp add: spec_update_body_def advance_def)
  ultimately show ?thesis
    using all each frame_paused [of now held s] by simp
qed

theorem frame_advances_angles_witness:
  "orbitSpeed (sun (planets (init_state 0))) = 0
   \<and> \<not> paused (frame 2 {} (init_state 0))
   \<and> orbitAngle (earth (planets (frame 2 {} (init_state 0)))) = 60
   \<and> spinAngle (earth (planets (frame 2 {} (init_state 0)))) = 100"
proof -
  have sun0: "orbitSpeed (sun (planets (init_state 0))) = 0"
    by (simp add: init_state_def init_bodies_def mk_planet_def)
  have running: "\<not> paused (frame 2 {} (init_state 0))"
    by (simp add: frame_paused init_state_def)
  have "(3::nat) < length (all_bodies (planets (init_state 0)))"
    by (simp add: all_bodies_def)
  with frame_advances_angles [OF sun0, of 2 "{}"] running
  have "orbitAngle (all_bodies (planets (frame 2 {} (init_state 0))) ! 3)
          = orbitAngle (all_bodies (planets (init_state 0)) ! 3)
            + orbitSpeed (all_bodies (planets (init_state 0)) ! 3)
              * (2 - last_time (init_state 0)) * timeScale (init_state 0)
      \<and> spinAngle (all_bodies (planets (frame 2 {} (init_state 0))) ! 3)
          = spinAngle (all_bodies (planets (init_state 0)) ! 3)
            + spinSpeed (all_bodies (planets (init_state 0)) ! 3)
              * (2 - last_time (init_state 0)) * timeScale (init_state 0)"
    by blast
  then show ?thesis
    using sun0 running
    by (simp add: all_bodies_def init_state_def init_bodies_def mk_planet_def)
qed


section \<open>Claims on the cameras\<close>

text \<open>
  C9 (as stated in the specification: in Free mode the held movement keys translate the
  position along forward, right and up vectors derived from the current yaw and pitch).
  The forward vector of the movement is not the direction in which the camera looks: with
  yaw \<open>0\<close> and pitch \<open>pi / 6\<close> the camera looks upwards (the second coordinate of its
  direction is \<open>1 / 2\<close>), but one second of W from \<open>(0, 10, 60)\<close> ends at
  \<open>(0, 10, 52)\<close>, at the same height, which is not the start plus eight times the direction,
  and is where the same key leads with pitch \<open>0\<close>.
\<close>

theorem free_forward_counterexample:
  "freePos (fst (camera_build 1 {KEY_W} (init_state 0\<lparr>camMode := FREE, freePitch := pi / 6\<rparr>)))
     = Vec3 0 10 52
   \<and> vy (free_dir (init_state 0\<lparr>camMode := FREE, freePitch := pi / 6\<rparr>)) = 1 / 2
   \<and> freePos (fst (camera_build 1 {KEY_W} (init_state 0\<lparr>camMode := FREE, freePitch := pi / 6\<rparr>)))
     \<noteq> vadd (freePos (init_state 0\<lparr>camMode := FREE, freePitch := pi / 6\<rparr>))
            (vscale (free_dir (init_state 0\<lparr>camMode := FREE, freePitch := pi / 6\<rparr>)) 8)
   \<and> freePos (fst (camera_build 1 {KEY_W} (init_state 0\<lparr>camMode := FREE, freePitch := pi / 6\<rparr>)))
     = freePos (fst (camera_build 1 {KEY_W} (init_state 0\<lparr>camMode := FREE, freePitch := 0\<rparr>)))"
  by (simp add: camera_build_def Let_def free_move_state init_state_def free_dir_def
      vadd_def vscale_def sin_30)

text \<open>
  C9 (amended). In Free mode the camera build moves the position by \<open>free_move\<close>: W and S
  along \<open>fwd = (sin yaw, 0, - cos yaw)\<close>, D and A along \<open>right = (cos yaw, 0, sin yaw)\<close>,
  Q and E along \<open>up = (0, 1, 0)\<close>, all derived from the yaw alone, each by
  \<open>move = (25 if the look-drag button is held, else 8) * dt\<close>; the pitch has no effect on
  the movement. So W alone covers \<open>25 * dt\<close> with the button held and \<open>8 * dt\<close> with it
  released.
\<close>

theorem free_camera_movement:
  "fst (camera_build dt held (s\<lparr>camMode := FREE\<rparr>)) = free_move dt held (s\<lparr>camMode := FREE\<rparr>)
   \<and> freePos (free_move dt held s) =
       (let move = (if rmbDown s then 25 else 8) * dt;
            fwd = Vec3 (sin (freeYaw s)) 0 (- cos (freeYaw s));
            right = Vec3 (cos (freeYaw s)) 0 (sin (freeYaw s));
            up = Vec3 0 1 0;
            w = of_bool (KEY_W \<in> held) - of_bool (KEY_S \<in> held);
            d = of_bool (KEY_D \<in> held) - of_bool (KEY_A \<in> held);
            q = of_bool (KEY_Q \<in> held) - of_bool (KEY_E \<in> held)
        in vadd (freePos s)
             (vadd (vscale fwd (w * move))
                (vadd (vscale right (d * move)) (vscale up (q * move)))))
   \<and> free_move dt held (s\<lparr>freePitch := p\<rparr>) = (free_move dt held s)\<lparr>freePitch := p\<rparr>
   \<and> freePos (free_move dt {KEY_W} (s\<lparr>rmbDown := True\<rparr>))
       = vadd (freePos s) (vscale (Vec3 (sin (freeYaw s)) 0 (- cos (freeYaw s))) (25 * dt))
   \<and> freePos (free_move dt {KEY_W} (s\<lparr>rmbDown := False\<rparr>))
       = vadd (freePos s) (vscale (Vec3 (sin (freeYaw s)) 0 (- cos (freeYaw s))) (8 * dt))"
proof -
  have a: "fst (camera_build dt held (s\<lparr>camMode := FREE\<rparr>))
             = free_move dt held (s\<lparr>camMode := FREE\<rparr>)"
    by (simp add: camera_build_def Let_def)
  have b: "freePos (free_move dt held s) =
       (let move = (if rmbDown s then 25 else 8) * dt;
            fwd = Vec3 (sin (freeYaw s)) 0 (- cos (freeYaw s));
            right = Vec3 (cos (freeYaw s)) 0 (sin (freeYaw s));
            up = Vec3 0 1 0;
            w = of_bool (KEY_W \<in> held) - of_bool (KEY_S \<in> held);
            d = of_bool (KEY_D \<in> held) - of_bool (KEY_A \<in> held);
            q = of_bool (KEY_Q \<in> held) - of_bool (KEY_E \<in> held)
        in vadd (freePos s)
             (vadd (vscale fwd (w * move))
                (vadd (vscale right (d * move)) (vscale up (q * move)))))"
    by (subst free_move_state) (simp split del: if_split)
  have c: "freePos (free_move dt {KEY_W} (s\<lparr>rmbDown := True\<rparr>))
       = vadd (freePos s) (vscale (Vec3 (sin (freeYaw s)) 0 (- cos (freeYaw s))) (25 * dt))"
    by (simp add: free_move_state Let_def vadd_def vscale_def)
  have d: "freePos (free_move dt {KEY_W} (s\<lparr>rmbDown := False\<rparr>))
       = vadd (freePos s) (vscale (Vec3 (sin (freeYaw s)) 0 (- cos (freeYaw s))) (8 * dt))"
    by (simp add: free_move_state Let_def vadd_def vscale_def)
  from a b c d free_move_pitch [of dt held p s] show ?thesis by (simp only: simp_thms)
qed

text \<open>
  C10. Orbit mode and Focus mode read and write one yaw and one pitch. A drag with the
  look button held, in Focus mode as in Orbit mode, adds \<open>0.005\<close> times the horizontal
  cursor travel to the yaw and subtracts \<open>0.005\<close> times the vertical travel from the
  pitch, clamped to 89 degrees either way, and the Orbit eye after a switch to Orbit mode,
  like the Focus eye offset after a switch to Focus mode, is the spherical offset at that
  new yaw and pitch; without the button the cursor changes nothing. The held-key nudge
  adds \<open>0.04\<close> to the yaw in both modes. A drag and the nudge do to the state in Focus mode
  exactly what they do in Orbit mode (the drag position included); selecting Orbit or
  Focus leaves yaw and pitch as they are; the Orbit eye is the spherical offset at
  (yaw, pitch, camDist) and the Focus eye is the target plus the same spherical offset at
  (yaw, pitch, focusDist).
\<close>

theorem orbit_focus_share_orientation:
  "cursor_cb x y (s\<lparr>camMode := FOCUS\<rparr>) = (cursor_cb x y (s\<lparr>camMode := ORBIT\<rparr>))\<lparr>camMode := FOCUS\<rparr>
   \<and> nudge held (s\<lparr>camMode := FOCUS\<rparr>) = (nudge held (s\<lparr>camMode := ORBIT\<rparr>))\<lparr>camMode := FOCUS\<rparr>
   \<and> camYaw (key_cb KEY_1 a s) = camYaw s \<and> camPitch (key_cb KEY_1 a s) = camPitch s
   \<and> camYaw (key_cb KEY_3 a s) = camYaw s \<and> camPitch (key_cb KEY_3 a s) = camPitch s
   \<and> snd (camera_build dt held (s\<lparr>camMode := ORBIT\<rparr>)) = (orbitCamPos s, Vec3 0 0 0)
   \<and> snd (camera_build dt held (s\<lparr>camMode := FOCUS\<rparr>))
       = (vadd (focus_target s) (orbitCamPos (s\<lparr>camDist := focusDist s\<rparr>)), focus_target s)
   \<and> orbitCamPos (key_cb KEY_1 PRESS (cursor_cb x y (s\<lparr>camMode := FOCUS\<rparr>)))
       = orbitCamPos (cursor_cb x y (s\<lparr>camMode := ORBIT\<rparr>))
   \<and> focus_offset (key_cb KEY_3 PRESS (cursor_cb x y (s\<lparr>camMode := ORBIT\<rparr>)))
       = focus_offset (cursor_cb x y (s\<lparr>camMode := FOCUS\<rparr>))
   \<and> camYaw (key_cb KEY_1 PRESS (cursor_cb x y (s\<lparr>camMode := FOCUS, rmbDown := True\<rparr>)))
       = camYaw s + (x - lastX s) * 0.005
   \<and> camPitch (key_cb KEY_1 PRESS (cursor_cb x y (s\<lparr>camMode := FOCUS, rmbDown := True\<rparr>)))
       = clamp (camPitch s - (y - lastY s) * 0.005) (radians (- 89)) (radians 89)
   \<and> camYaw (key_cb KEY_3 PRESS (cursor_cb x y (s\<lparr>camMode := ORBIT, rmbDown := True\<rparr>)))
       = camYaw s + (x - lastX s) * 0.005
   \<and> camPitch (key_cb KEY_3 PRESS (cursor_cb x y (s\<lparr>camMode := ORBIT, rmbDown := True\<rparr>)))
       = clamp (camPitch s - (y - lastY s) * 0.005) (radians (- 89)) (radians 89)
   \<and> orbitCamPos (key_cb KEY_1 PRESS (cursor_cb x y (s\<lparr>camMode := FOCUS, rmbDown := True\<rparr>)))
       = orbitCamPos
           (s\<lparr>camYaw := camYaw s + (x - lastX s) * 0.005,
              camPitch := clamp (camPitch s - (y - lastY s) * 0.005)
                            (radians (- 89)) (radians 89)\<rparr>)
   \<and> focus_offset (key_cb KEY_3 PRESS (cursor_cb x y (s\<lparr>camMode := ORBIT, rmbDown := True\<rparr>)))
       = focus_offset
           (s\<lparr>camYaw := camYaw s + (x - lastX s) * 0.005,
              camPitch := clamp (camPitch s - (y - lastY s) * 0.005)
                            (radians (- 89)) (radians 89)\<rparr>)
   \<and> cursor_cb x y (s\<lparr>rmbDown := False\<rparr>) = s\<lparr>rmbDown := False\<rparr>
   \<and> camYaw (nudge {KEY_D} (s\<lparr>camMode := FOCUS\<rparr>)) = camYaw s + 0.04
   \<and> camYaw (nudge {KEY_D} (s\<lparr>camMode := ORBIT\<rparr>)) = camYaw s + 0.04
   \<and> camYaw (cursor_cb 100 0 (key_cb KEY_3 PRESS (mouse_btn_cb MOUSE_BUTTON_RIGHT PRESS 0 0
                (init_state 0)))) = 1 / 2
   \<and> orbitCamPos (key_cb KEY_1 PRESS (cursor_cb 100 0 (key_cb KEY_3 PRESS
        (mouse_btn_cb MOUSE_BUTTON_RIGHT PRESS 0 0 (init_state 0)))))
       = Vec3 (45 * cos (radians 15) * sin (1 / 2)) (45 * sin (radians 15))
              (45 * cos (radians 15) * cos (1 / 2))"
proof -
  have drag: "cursor_cb x y (s\<lparr>camMode := FOCUS\<rparr>)
                = (cursor_cb x y (s\<lparr>camMode := ORBIT\<rparr>))\<lparr>camMode := FOCUS\<rparr>"
    by (simp add: cursor_cb_def Let_def)
  have keys: "nudge held (s\<lparr>camMode := FOCUS\<rparr>)
                = (nudge held (s\<lparr>camMode := ORBIT\<rparr>))\<lparr>camMode := FOCUS\<rparr>"
    by (simp add: nudge_def Let_def)
  have switch: "camYaw (key_cb KEY_1 a s) = camYaw s \<and> camPitch (key_cb KEY_1 a s) = camPitch s
      \<and> camYaw (key_cb KEY_3 a s) = camYaw s \<and> camPitch (key_cb KEY_3 a s) = camPitch s"
    by (simp add: key_cb_def)
  have orbit_eye: "snd (camera_build dt held (s\<lparr>camMode := ORBIT\<rparr>)) = (orbitCamPos s, Vec3 0 0 0)"
    by (simp add: camera_build_def orbitCamPos_def)
  have focus_eye: "snd (camera_build dt held (s\<lparr>camMode := FOCUS\<rparr>))
       = (vadd (focus_target s) (orbitCamPos (s\<lparr>camDist := focusDist s\<rparr>)), focus_target s)"
    by (simp add: camera_build_def orbitCamPos_def focus_offset_def focus_target_def
        focus_slot_def)
  have to_orbit: "orbitCamPos (key_cb KEY_1 PRESS (cursor_cb x y (s\<lparr>camMode := FOCUS\<rparr>)))
       = orbitCamPos (cursor_cb x y (s\<lparr>camMode := ORBIT\<rparr>))"
    unfolding drag by (simp add: key_cb_def orbitCamPos_def)
  have to_focus: "focus_offset (key_cb KEY_3 PRESS (cursor_cb x y (s\<lparr>camMode := ORBIT\<rparr>)))
       = focus_offset (cursor_cb x y (s\<lparr>camMode := FOCUS\<rparr>))"
    unfolding drag by (simp add: key_cb_def focus_offset_def)
  have yaw_f: "camYaw (key_cb KEY_1 PRESS (cursor_cb x y (s\<lparr>camMode := FOCUS, rmbDown := True\<rparr>)))
       = camYaw s + (x - lastX s) * 0.005"
    by (simp add: key_cb_def cursor_cb_def Let_def)
  have pitch_f: "camPitch (key_cb KEY_1 PRESS (cursor_cb x y (s\<lparr>camMode := FOCUS, rmbDown := True\<rparr>)))
       = clamp (camPitch s - (y - lastY s) * 0.005) (radians (- 89)) (radians 89)"
    by (simp add: key_cb_def cursor_cb_def Let_def)
  have yaw_o: "camYaw (key_cb KEY_3 PRESS (cursor_cb x y (s\<lparr>camMode := ORBIT, rmbDown := True\<rparr>)))
       = camYaw s + (x - lastX s) * 0.005"
    by (simp add: key_cb_def cursor_cb_def Let_def)
  have pitch_o: "camPitch (key_cb KEY_3 PRESS (cursor_cb x y (s\<lparr>camMode := ORBIT, rmbDown := True\<rparr>)))
       = clamp (camPitch s - (y - lastY s) * 0.005) (radians (- 89)) (radians 89)"
    by (simp add: key_cb_def cursor_cb_def Let_def)
  have eye_f: "orbitCamPos (key_cb KEY_1 PRESS (cursor_cb x y (s\<lparr>camMode := FOCUS, rmbDown := True\<rparr>)))
       = orbitCamPos
           (s\<lparr>camYaw := camYaw s + (x - lastX s) * 0.005,
              camPitch := clamp (camPitch s - (y - lastY s) * 0.005)
                            (radians (- 89)) (radians 89)\<rparr>)"
    by (simp add: key_cb_def cursor_cb_def Let_def orbitCamPos_def)
  have eye_o: "focus_offset (key_cb KEY_3 PRESS (cursor_cb x y (s\<lparr>camMode := ORBIT, rmbDown := True\<rparr>)))
       = focus_offset
           (s\<lparr>camYaw := camYaw s + (x - lastX s) * 0.005,
              camPitch := clamp (camPitch s - (y - lastY s) * 0.005)
                            (radians (- 89)) (radians 89)\<rparr>)"
    by (simp add: key_cb_def cursor_cb_def Let_def focus_offset_def)
  have idle: "cursor_cb x y (s\<lparr>rmbDown := False\<rparr>) = s\<lparr>rmbDown := False\<rparr>"
    by (simp add: cursor_cb_def)
  have nudge_f: "camYaw (nudge {KEY_D} (s\<lparr>camMode := FOCUS\<rparr>)) = camYaw s + 0.04"
    by (simp add: nudge_def Let_def)
  have nudge_o: "camYaw (nudge {KEY_D} (s\<lparr>camMode := ORBIT\<rparr>)) = camYaw s + 0.04"
    by (simp add: nudge_def Let_def)
  have run_yaw: "camYaw (cursor_cb 100 0 (key_cb KEY_3 PRESS (mouse_btn_cb MOUSE_BUTTON_RIGHT PRESS 0 0
                (init_state 0)))) = 1 / 2"
    by (simp add: cursor_cb_def key_cb_def mouse_btn_cb_def init_state_def Let_def radians_def)
  have "radians (- 89) \<le> radians 15" and "radians 15 \<le> radians 89"
    by (rule radians_mono, simp)+
  then have pitch15: "clamp (radians 15) (radians (- 89)) (radians 89) = radians 15"
    by (simp add: clamp_def)
  have run_eye: "orbitCamPos (key_cb KEY_1 PRESS (cursor_cb 100 0 (key_cb KEY_3 PRESS
        (mouse_btn_cb MOUSE_BUTTON_RIGHT PRESS 0 0 (init_state 0)))))
       = Vec3 (45 * cos (radians 15) * sin (1 / 2)) (45 * sin (radians 15))
              (45 * cos (radians 15) * cos (1 / 2))"
    by (simp add: cursor_cb_def key_cb_def mouse_btn_cb_def init_state_def Let_def
        orbitCamPos_def pitch15) (simp add: radians_def)
  from drag keys switch orbit_eye focus_eye to_orbit to_focus yaw_f pitch_f yaw_o pitch_o
    eye_f eye_o idle nudge_f nudge_o run_yaw run_eye
  show ?thesis by (simp only: simp_thms)
qed


section \<open>Claims on the world transform\<close>

lemma drawPlanet_model_origin:
  "FragPos (drawPlanet_model p) (Vec3 0 0 0)
     = Vec3 (orbitRadius p * cos (radians (orbitAngle p))) 0
            (- (orbitRadius p * sin (radians (orbitAngle p))))"
  unfolding drawPlanet_model_def Let_def rotate_y_origin
  by (simp add: rotate_y translate_def mat_identity_def FragPos_def
      mat_mul_vec_def v4add_def v4scale_def)

lemma three_N_then_frame:
  "focusIndex (run [Key KEY_N PRESS, Key KEY_N PRESS, Key KEY_N PRESS, Frame 3 {}]
                 (init_state 0)) = 3"
  "earth (planets (run [Key KEY_N PRESS, Key KEY_N PRESS, Key KEY_N PRESS, Frame 3 {}]
                     (init_state 0)))
     = \<lparr>orbitRadius = 12, orbitSpeed = 30, spinSpeed = 50, orbitAngle = 90, spinAngle = 150\<rparr>"
  by (simp_all add: run_def frame_keeps frame_planets frame_paused key_cb_def init_state_def
      signed_modulo_int_def advance_def animate_def init_bodies_def mk_planet_def
      spin_body_def orbit_body_def)

text \<open>
  C1. For every parent and moon, and for every planet, the model matrix is the composition
  of the specification in its order: for each ancestor rotate by the orbit angle about the
  vertical axis, then translate by the orbit radius, the same for the body, then rotate by
  the spin angle. With that order and the rotation of \<^verbatim>\<open>glm::rotate\<close>, which takes the
  reference axis \<open>(1, 0, 0)\<close> to \<open>(0, 0, - 1)\<close> at 90 degrees, a moon of radius \<open>r\<close> and
  angle \<open>b\<close> around a parent of radius \<open>R\<close> and angle \<open>a\<close> is drawn at
  \<open>(R cos a + r cos (a + b), 0, - R sin a - r sin (a + b))\<close>. For the parent at radius 12
  and 90 degrees and the moon at radius 2 and 0 degrees the matrices draw the parent at
  \<open>(0, 0, - 12)\<close> and the moon at \<open>(0, 0, - 14)\<close>, where the specification has
  \<open>(0, 0, 12)\<close> for the parent; the commuted order would draw the moon at
  \<open>(12, 0, - 2)\<close>. The Focus camera computes the orbit point of the same parent as
  \<open>(0, 0, 12)\<close>, the value of the specification: after three presses of N and a frame of
  three seconds the earth is at 90 degrees and focused, the camera targets \<open>(0, 0, 12)\<close>
  and the earth is drawn at \<open>(0, 0, - 12)\<close>. The two paths of the program disagree in
  the sign of the third coordinate.
\<close>

theorem moon_world_position:
  "moon_model e m = spec_world_transform [e] m
   \<and> drawPlanet_model p = spec_world_transform [] p
   \<and> FragPos (moon_model e m) (Vec3 0 0 0)
       = Vec3 (orbitRadius e * cos (radians (orbitAngle e))
               + orbitRadius m * cos (radians (orbitAngle e) + radians (orbitAngle m)))
              0
              (- (orbitRadius e * sin (radians (orbitAngle e)))
               - orbitRadius m * sin (radians (orbitAngle e) + radians (orbitAngle m)))
   \<and> FragPos (parent_model (mk_planet 12 30 50\<lparr>orbitAngle := 90\<rparr>)) (Vec3 0 0 0)
       = Vec3 0 0 (- 12)
   \<and> FragPos (drawPlanet_model (mk_planet 12 30 50\<lparr>orbitAngle := 90\<rparr>)) (Vec3 0 0 0)
       = Vec3 0 0 (- 12)
   \<and> FragPos (rotate mat_identity (radians 90) (Vec3 0 1 0)) (Vec3 2 0 0) = Vec3 0 0 (- 2)
   \<and> FragPos (moon_model (mk_planet 12 30 50\<lparr>orbitAngle := 90\<rparr>) (mk_planet 2 80 20))
        (Vec3 0 0 0) = Vec3 0 0 (- 14)
   \<and> FragPos (commuted_world_transform [mk_planet 12 30 50\<lparr>orbitAngle := 90\<rparr>]
                 (mk_planet 2 80 20)) (Vec3 0 0 0) = Vec3 12 0 (- 2)
   \<and> focus_target (run [Key KEY_N PRESS, Key KEY_N PRESS, Key KEY_N PRESS, Frame 3 {}]
                      (init_state 0)) = Vec3 0 0 12
   \<and> FragPos (drawPlanet_model
                 (earth (planets (run [Key KEY_N PRESS, Key KEY_N PRESS, Key KEY_N PRESS,
                                       Frame 3 {}] (init_state 0))))) (Vec3 0 0 0)
       = Vec3 0 0 (- 12)"
proof -
  have a: "moon_model e m = spec_world_transform [e] m"
    by (simp add: moon_model_def parent_model_def spec_world_transform_def spec_orbit_def
        Let_def)
  have b: "drawPlanet_model p = spec_world_transform [] p"
    by (simp add: drawPlanet_model_def spec_world_transform_def spec_orbit_def Let_def)
  have g: "FragPos (moon_model e m) (Vec3 0 0 0)
       = Vec3 (orbitRadius e * cos (radians (orbitAngle e))
               + orbitRadius m * cos (radians (orbitAngle e) + radians (orbitAngle m)))
              0
              (- (orbitRadius e * sin (radians (orbitAngle e)))
               - orbitRadius m * sin (radians (orbitAngle e) + radians (orbitAngle m)))"
    by (simp only: moon_model_origin cos_add sin_add)
  have c: "FragPos (parent_model (mk_planet 12 30 50\<lparr>orbitAngle := 90\<rparr>)) (Vec3 0 0 0)
             = Vec3 0 0 (- 12)"
    by (simp add: parent_model_origin mk_planet_def radians_90)
  have c': "FragPos (drawPlanet_model (mk_planet 12 30 50\<lparr>orbitAngle := 90\<rparr>)) (Vec3 0 0 0)
             = Vec3 0 0 (- 12)"
    by (simp add: drawPlanet_model_origin mk_planet_def radians_90)
  have d: "FragPos (rotate mat_identity (radians 90) (Vec3 0 1 0)) (Vec3 2 0 0) = Vec3 0 0 (- 2)"
    by (simp add: rotate_y mat_identity_def FragPos_def mat_mul_vec_def v4add_def v4scale_def
        radians_90)
  have e: "FragPos (moon_model (mk_planet 12 30 50\<lparr>orbitAngle := 90\<rparr>) (mk_planet 2 80 20))
             (Vec3 0 0 0) = Vec3 0 0 (- 14)"
    by (simp add: moon_model_origin mk_planet_def radians_90 radians_0)
  have f: "FragPos (commuted_world_transform [mk_planet 12 30 50\<lparr>orbitAngle := 90\<rparr>]
                      (mk_planet 2 80 20)) (Vec3 0 0 0) = Vec3 12 0 (- 2)"
    by (simp add: commuted_moon_origin mk_planet_def radians_90)
  have h: "focus_target (run [Key KEY_N PRESS, Key KEY_N PRESS, Key KEY_N PRESS, Frame 3 {}]
                           (init_state 0)) = Vec3 0 0 12"
    by (simp add: focus_target_def focus_slot_def focus_arr_def three_N_then_frame radians_90)
  have i: "FragPos (drawPlanet_model
                 (earth (planets (run [Key KEY_N PRESS, Key KEY_N PRESS, Key KEY_N PRESS,
                                       Frame 3 {}] (init_state 0))))) (Vec3 0 0 0)
             = Vec3 0 0 (- 12)"
    by (simp add: drawPlanet_model_origin three_N_then_frame radians_90)
  from a b g c c' d e f h i show ?thesis by (simp only: simp_thms)
qed

end
